theory Spec2Isabelle
  imports Main "HOL-Library.Word"
begin

section \<open>The ChatGLM chat-model adapter (langchain/src/chat_models/chatglm.ts)\<close>

text \<open>
  A shallow embedding of the adapter. Strings are byte strings. A JavaScript value that
  may be \<^verbatim>\<open>undefined\<close> is an \<open>option\<close>. A thrown error (and a rejected promise) is
  the left summand of a sum type. The two effects the module has on the outside, the lines
  it writes with \<^verbatim>\<open>console.warn\<close> and the requests it hands to \<^verbatim>\<open>fetch\<close>, are
  recorded in an explicit \<open>world\<close> that every effectful function takes and returns.
  What the module only calls and does not define (the clock, the token signer of the jose
  library, the network, the framework's message classes) is a parameter, collected in the
  record \<open>runtime\<close>.
\<close>

subsection \<open>Data model\<close>

datatype error =
    Error string        \<comment> \<open>\<^verbatim>\<open>new Error(msg)\<close>\<close>
  | TypeError string    \<comment> \<open>the engine's error on reading a property of \<^verbatim>\<open>undefined\<close>\<close>

text \<open>\<^verbatim>\<open>ChatGLMMessageRole\<close> is a type-level union of two literals; the values at run
  time are strings, and \<^verbatim>\<open>as ChatGLMMessageRole\<close> is an unchecked cast.\<close>

type_synonym ChatGLMMessageRole = string

record ChatGLMMessage =
  role :: ChatGLMMessageRole
  content :: string

record ChatCompletionRequest =
  prompt :: "ChatGLMMessage list"

record usage =
  completion_tokens :: int
  prompt_tokens :: int
  total_tokens :: int

record response_data =
  request_id :: string
  task_id :: string
  task_status :: string
  choices :: "ChatGLMMessage list"
  usage :: "usage option"

text \<open>The interface declares \<^verbatim>\<open>data\<close> as always present; \<^verbatim>\<open>_generate\<close> reads it with
  \<^verbatim>\<open>?.\<close>, so the parsed body may lack it.\<close>

record ChatCompletionResponse =
  code :: int
  success :: bool
  msg :: string
  data :: "response_data option"

text \<open>
  A framework message, as far as this module looks at it: the string \<^verbatim>\<open>_getType()\<close>
  returns, its \<^verbatim>\<open>content\<close>, whether \<^verbatim>\<open>ChatMessage.isInstance\<close> accepts it, and the
  \<^verbatim>\<open>role\<close> field that a \<^verbatim>\<open>ChatMessage\<close> carries (read only after that test). The
  message classes live in schema/index.ts, which the module imports.
\<close>

record BaseMessage =
  getType :: string
  message_content :: string
  ChatMessage_isInstance :: bool
  message_role :: string

record ChatGLMInput =
  fields_chatGLMApiKey :: "string option"
  fields_expSeconds :: "int option"

text \<open>The instance fields that the methods read. \<^verbatim>\<open>expSeconds\<close> is a JavaScript number;
  the model takes whole numbers.\<close>

record ChatGLM =
  chatGLMApiKey :: string
  expSeconds :: int

record jwt_payload =
  api_key :: string
  exp :: int
  timestamp :: int

record jwt_header =
  alg :: string
  sign_type :: string

text \<open>The builder object of the jose library: the claims set and the protected header.\<close>

record SignJWT =
  jwt_claims :: jwt_payload
  protectedHeader :: "jwt_header option"

datatype AbortSignal = AbortSignal (aborted: bool)

type_synonym ReadableStream = "8 word list"

datatype IterableReadableStream = fromReadableStream ReadableStream

datatype json_text = JSON_stringify ChatCompletionRequest

record http_request =
  url :: string
  http_method :: string
  headers :: "(string \<times> string) list"
  body :: json_text
  signal :: "AbortSignal option"

text \<open>A response: its \<^verbatim>\<open>body\<close> stream, if any, and what \<^verbatim>\<open>response.json()\<close> resolves to or
  rejects with.\<close>

record http_response =
  response_body :: "ReadableStream option"
  response_json :: "error + ChatCompletionResponse"

record 'm ChatGeneration =
  generation_text :: "string option"
  generation_message :: 'm

record llmOutput =
  tokenUsage :: "usage option"

record 'm ChatResult =
  generations :: "'m ChatGeneration list"
  llmOutput :: llmOutput

record ParsedCallOptions =
  options_signal :: "AbortSignal option"

text \<open>The outside world as the module changes it.\<close>

record world =
  console :: "string list"          \<comment> \<open>lines written by \<^verbatim>\<open>console.warn\<close>, oldest first\<close>
  fetched :: "http_request list"    \<comment> \<open>requests passed to \<^verbatim>\<open>fetch\<close>, oldest first\<close>

text \<open>
  What the module calls and does not define. \<open>Date_now_exp\<close> and
  \<open>Date_now_timestamp\<close> are the values of the two reads of \<^verbatim>\<open>Date.now()\<close> in
  \<^verbatim>\<open>_getJWTToken\<close> (milliseconds since the epoch), in the order of evaluation.
  \<open>jwt_sign\<close> is \<^verbatim>\<open>SignJWT.sign\<close> applied to the builder and the key bytes.
  \<open>new_AIMessage\<close> is the constructor of the framework's AI message, which may throw.
\<close>

record 'm runtime =
  Date_now_exp :: int
  Date_now_timestamp :: int
  jwt_sign :: "SignJWT \<Rightarrow> string \<Rightarrow> error + string"
  fetch :: "http_request \<Rightarrow> error + http_response"
  new_AIMessage :: "string option \<Rightarrow> error + 'm"

subsection \<open>Role translation\<close>

text \<open>\<^verbatim>\<open>console.warn(line)\<close>.\<close>

definition console_warn :: "string \<Rightarrow> world \<Rightarrow> world" where
  "console_warn line w = w\<lparr>console := console w @ [line]\<rparr>"

definition extractGenericMessageCustomRole ::
    "BaseMessage \<Rightarrow> world \<Rightarrow> ChatGLMMessageRole \<times> world" where
  "extractGenericMessageCustomRole message w =
     (let w' = (if message_role message \<noteq> ''assistant'' \<and> message_role message \<noteq> ''user''
                then console_warn (''Unknown message role: '' @ message_role message) w
                else w)
      in (message_role message, w'))"

definition messageToChatGLMRole ::
    "BaseMessage \<Rightarrow> world \<Rightarrow> (error + ChatGLMMessageRole) \<times> world" where
  "messageToChatGLMRole message w =
     (let type = getType message in
      if type = ''ai'' then (Inr ''assistant'', w)
      else if type = ''human'' then (Inr ''user'', w)
      else if type = ''system'' then (Inl (Error ''System messages should not be here''), w)
      else if type = ''function'' then (Inl (Error ''Function messages not supported''), w)
      else if type = ''generic'' then
        (if \<not> ChatMessage_isInstance message
         then (Inl (Error ''Invalid generic chat message''), w)
         else (case extractGenericMessageCustomRole message w of
                 (r, w') \<Rightarrow> (Inr r, w')))
      else (Inl (Error (''Unknown message type: '' @ type)), w))"

subsection \<open>Construction\<close>

text \<open>
  The constructor, after \<^verbatim>\<open>super(fields ?? {})\<close>. Its first argument is the optional
  \<^verbatim>\<open>fields\<close> object (\<open>input\<close> below), its second what \<^verbatim>\<open>getEnvironmentVariable("CHATGLM_API_KEY")\<close>
  returns (util/env.js). \<^verbatim>\<open>a ?? b\<close> is \<open>b\<close> only when \<open>a\<close> is undefined;
  \<^verbatim>\<open>!s\<close> holds of an undefined and of an empty string. The class initialises
  \<^verbatim>\<open>expSeconds\<close> to 3600.
\<close>

definition nullish_or :: "'a option \<Rightarrow> 'a option \<Rightarrow> 'a option" where
  "nullish_or a b = (case a of Some x \<Rightarrow> Some x | None \<Rightarrow> b)"

definition ChatGLM_constructor ::
    "ChatGLMInput option \<Rightarrow> string option \<Rightarrow> error + ChatGLM" where
  "ChatGLM_constructor input env_CHATGLM_API_KEY =
     (let key = nullish_or (Option.bind input fields_chatGLMApiKey) env_CHATGLM_API_KEY in
      case key of
        None \<Rightarrow> Inl (Error ''ChatGLM API key not found'')
      | Some k \<Rightarrow>
          if k = [] then Inl (Error ''ChatGLM API key not found'')
          else Inr \<lparr>chatGLMApiKey = k,
                    expSeconds = (case Option.bind input fields_expSeconds of
                                    Some n \<Rightarrow> n | None \<Rightarrow> 3600)\<rparr>)"

subsection \<open>Token signing\<close>

text \<open>\<^verbatim>\<open>s.split(".")\<close>: the pieces of \<open>s\<close> between the separators, at least one.\<close>

fun split :: "char \<Rightarrow> string \<Rightarrow> string list" where
  "split sep [] = [[]]"
| "split sep (c # cs) =
     (if c = sep then [] # split sep cs
      else (case split sep cs of
              piece # pieces \<Rightarrow> (c # piece) # pieces
            | [] \<Rightarrow> [[c]]))"

text \<open>\<^verbatim>\<open>Math.round(ms / 1000)\<close> for a whole number of milliseconds: the nearest whole
  number, a half going up.\<close>

definition Math_round_div_1000 :: "int \<Rightarrow> int" where
  "Math_round_div_1000 ms = (ms + 500) div 1000"

text \<open>\<^verbatim>\<open>new TextEncoder().encode(s)\<close>; an undefined argument takes the default, the empty
  string.\<close>

definition TextEncoder_encode :: "string option \<Rightarrow> string" where
  "TextEncoder_encode s = (case s of None \<Rightarrow> [] | Some bytes \<Rightarrow> bytes)"

text \<open>The three builder operations of jose that the method uses: the constructor keeps
  the payload, \<^verbatim>\<open>setProtectedHeader\<close> stores the header, \<^verbatim>\<open>setExpirationTime\<close> with a
  number stores it as the \<^verbatim>\<open>exp\<close> claim.\<close>

definition new_SignJWT :: "jwt_payload \<Rightarrow> SignJWT" where
  "new_SignJWT p = \<lparr>jwt_claims = p, protectedHeader = None\<rparr>"

definition setProtectedHeader :: "jwt_header \<Rightarrow> SignJWT \<Rightarrow> SignJWT" where
  "setProtectedHeader h j = j\<lparr>protectedHeader := Some h\<rparr>"

definition setExpirationTime :: "int \<Rightarrow> SignJWT \<Rightarrow> SignJWT" where
  "setExpirationTime n j = j\<lparr>jwt_claims := (jwt_claims j)\<lparr>exp := n\<rparr>\<rparr>"

text \<open>The local constants \<^verbatim>\<open>payload\<close>, \<^verbatim>\<open>header\<close> and \<^verbatim>\<open>jwt\<close> of
  \<^verbatim>\<open>_getJWTToken\<close>, then the method.\<close>

definition getJWTToken_payload :: "ChatGLM \<Rightarrow> 'm runtime \<Rightarrow> jwt_payload" where
  "getJWTToken_payload this rt =
     (let key_id = hd (split CHR ''.'' (chatGLMApiKey this)) in
      \<lparr>api_key = key_id,
       exp = Math_round_div_1000 (Date_now_exp rt) + expSeconds this * 1000,
       timestamp = Math_round_div_1000 (Date_now_timestamp rt)\<rparr>)"

definition getJWTToken_header :: jwt_header where
  "getJWTToken_header = \<lparr>alg = ''HS256'', sign_type = ''SIGN''\<rparr>"

definition getJWTToken_jwt :: "ChatGLM \<Rightarrow> 'm runtime \<Rightarrow> SignJWT" where
  "getJWTToken_jwt this rt =
     (let payload = getJWTToken_payload this rt in
      setExpirationTime (exp payload)
        (setProtectedHeader getJWTToken_header (new_SignJWT payload)))"

definition getJWTToken :: "ChatGLM \<Rightarrow> 'm runtime \<Rightarrow> error + string" where
  "getJWTToken this rt =
     (let secret = (case split CHR ''.'' (chatGLMApiKey this) of
                      _ # s # _ \<Rightarrow> Some s
                    | _ \<Rightarrow> None)
      in jwt_sign rt (getJWTToken_jwt this rt) (TextEncoder_encode secret))"

subsection \<open>The HTTP call\<close>

text \<open>What \<^verbatim>\<open>completion\<close> resolves to: the wrapped stream, the parsed body, or
  \<^verbatim>\<open>undefined\<close> when the function body ends without a \<^verbatim>\<open>return\<close>.\<close>

datatype completion_result =
    Streams IterableReadableStream
  | Response ChatCompletionResponse
  | Undefined

text \<open>The second argument of \<^verbatim>\<open>fetch\<close>, with the first (the fixed address).\<close>

definition completion_request ::
    "string \<Rightarrow> ChatCompletionRequest \<Rightarrow> bool \<Rightarrow> AbortSignal option \<Rightarrow> http_request" where
  "completion_request token request stream sig =
     \<lparr>url = ''https://open.bigmodel.cn/api/paas/v3/model-api/chatglm_turbo/invoke'',
      http_method = ''POST'',
      headers = [(''Authorization'', token),
                 (''accept'', if stream then ''text/event-stream'' else ''application/json''),
                 (''Content-Type'', ''application/json'')],
      body = JSON_stringify request,
      signal = sig\<rparr>"

text \<open>The token is awaited while the headers are built, before \<^verbatim>\<open>fetch\<close> is called: a
  failing signer sends nothing.\<close>

definition completion ::
    "ChatGLM \<Rightarrow> 'm runtime \<Rightarrow> ChatCompletionRequest \<Rightarrow> bool \<Rightarrow> AbortSignal option \<Rightarrow>
     world \<Rightarrow> (error + completion_result) \<times> world" where
  "completion this rt request stream sig w =
     (case getJWTToken this rt of
        Inl e \<Rightarrow> (Inl e, w)
      | Inr token \<Rightarrow>
          (let req = completion_request token request stream sig;
               w' = w\<lparr>fetched := fetched w @ [req]\<rparr>
           in case fetch rt req of
                Inl e \<Rightarrow> (Inl e, w')
              | Inr response \<Rightarrow>
                  if stream then
                    (case response_body response of
                       Some b \<Rightarrow> (Inr (Streams (fromReadableStream b)), w')
                     | None \<Rightarrow> (Inr Undefined, w'))
                  else
                    (case response_json response of
                       Inl e \<Rightarrow> (Inl e, w')
                     | Inr parsed \<Rightarrow> (Inr (Response parsed), w'))))"

subsection \<open>Generation\<close>

text \<open>\<^verbatim>\<open>messages.map(...)\<close> in \<^verbatim>\<open>_generate\<close>: from left to right, stopping at the first
  message whose role translation throws.\<close>

fun messagesMapped ::
    "BaseMessage list \<Rightarrow> world \<Rightarrow> (error + ChatGLMMessage list) \<times> world" where
  "messagesMapped [] w = (Inr [], w)"
| "messagesMapped (message # rest) w =
     (case messageToChatGLMRole message w of
        (Inl e, w') \<Rightarrow> (Inl e, w')
      | (Inr r, w') \<Rightarrow>
          (case messagesMapped rest w' of
             (Inl e, w'') \<Rightarrow> (Inl e, w'')
           | (Inr mapped, w'') \<Rightarrow>
               (Inr (\<lparr>role = r, content = message_content message\<rparr> # mapped), w'')))"

text \<open>\<^verbatim>\<open>result.data\<close>: the field of a parsed body; absent on a stream object; a
  \<^verbatim>\<open>TypeError\<close> on \<^verbatim>\<open>undefined\<close>.\<close>

definition result_data :: "completion_result \<Rightarrow> error + response_data option" where
  "result_data result =
     (case result of
        Response parsed \<Rightarrow> Inr (data parsed)
      | Streams _ \<Rightarrow> Inr None
      | Undefined \<Rightarrow> Inl (TypeError ''Cannot read properties of undefined''))"

text \<open>\<^verbatim>\<open>result.data?.choices[0]?.content\<close>, given \<^verbatim>\<open>result.data\<close>.\<close>

definition first_choice_content :: "response_data option \<Rightarrow> string option" where
  "first_choice_content d =
     (case d of
        None \<Rightarrow> None
      | Some dat \<Rightarrow> (case choices dat of [] \<Rightarrow> None | c # _ \<Rightarrow> Some (content c)))"

definition generate ::
    "ChatGLM \<Rightarrow> 'm runtime \<Rightarrow> BaseMessage list \<Rightarrow> ParsedCallOptions \<Rightarrow>
     world \<Rightarrow> (error + 'm ChatResult) \<times> world" where
  "generate this rt messages options w =
     (case messagesMapped messages w of
        (Inl e, w1) \<Rightarrow> (Inl e, w1)
      | (Inr mapped, w1) \<Rightarrow>
          (case completion this rt \<lparr>prompt = mapped\<rparr> False (options_signal options) w1 of
             (Inl e, w2) \<Rightarrow> (Inl e, w2)
           | (Inr result, w2) \<Rightarrow>
               (case result_data result of
                  Inl e \<Rightarrow> (Inl e, w2)
                | Inr d \<Rightarrow>
                    (let text = first_choice_content d in
                     case new_AIMessage rt text of
                       Inl e \<Rightarrow> (Inl e, w2)
                     | Inr message \<Rightarrow>
                         (Inr \<lparr>generations =
                                 [\<lparr>generation_text = text, generation_message = message\<rparr>],
                               llmOutput = \<lparr>tokenUsage = Option.bind d usage\<rparr>\<rparr>, w2)))))"

subsection \<open>Example values\<close>

text \<open>Concrete inputs at which the theorems below are instantiated: an instance with the
  default expiry window, messages of the framework's kinds, and a runtime whose signer
  always returns the same token and whose network always returns the given response. Its
  message constructor takes a string as the content of the message and, as the framework's
  constructor does when its argument is not a string, reads a property of the argument:
  on \<^verbatim>\<open>undefined\<close> it throws a \<^verbatim>\<open>TypeError\<close>.\<close>

definition example_world :: world where
  "example_world = \<lparr>console = [], fetched = []\<rparr>"

definition example_message :: "string \<Rightarrow> string \<Rightarrow> BaseMessage" where
  "example_message type txt =
     \<lparr>getType = type, message_content = txt, ChatMessage_isInstance = False, message_role = []\<rparr>"

definition example_ChatMessage :: "string \<Rightarrow> string \<Rightarrow> BaseMessage" where
  "example_ChatMessage r txt =
     \<lparr>getType = ''generic'', message_content = txt, ChatMessage_isInstance = True, message_role = r\<rparr>"

definition example_ChatGLM :: ChatGLM where
  "example_ChatGLM = \<lparr>chatGLMApiKey = ''id.secret'', expSeconds = 3600\<rparr>"

definition example_runtime :: "http_response \<Rightarrow> string runtime" where
  "example_runtime response =
     \<lparr>Date_now_exp = 1700000000000,
      Date_now_timestamp = 1700000000000,
      jwt_sign = (\<lambda>jwt key. Inr ''signed''),
      fetch = (\<lambda>req. Inr response),
      new_AIMessage = (\<lambda>t. case t of
                          None \<Rightarrow> Inl (TypeError ''Cannot read properties of undefined'')
                        | Some s \<Rightarrow> Inr s)\<rparr>"

definition example_response :: "response_data option \<Rightarrow> http_response" where
  "example_response d =
     \<lparr>response_body = None,
      response_json = Inr \<lparr>code = 200, success = True, msg = ''ok'', data = d\<rparr>\<rparr>"

definition example_data :: "ChatGLMMessage list \<Rightarrow> response_data" where
  "example_data cs =
     \<lparr>request_id = ''r1'', task_id = ''t1'', task_status = ''SUCCESS'', choices = cs,
      usage = None\<rparr>"

lemmas example_defs = example_ChatGLM_def example_runtime_def example_response_def
  example_data_def example_message_def example_ChatMessage_def example_world_def

lemmas token_defs = getJWTToken_def getJWTToken_jwt_def getJWTToken_payload_def
  getJWTToken_header_def setExpirationTime_def setProtectedHeader_def new_SignJWT_def
  TextEncoder_encode_def Math_round_div_1000_def

section \<open>Auxiliary facts\<close>

text \<open>\<open>split\<close> never returns the empty list, so the first piece read by
  \<open>getJWTToken_payload\<close> exists.\<close>

lemma split_not_Nil: "split sep s \<noteq> []"
  by (induction s) (auto split: list.splits)

text \<open>The translated role does not depend on the world; translation only appends to the
  console and sends nothing.\<close>

lemma messageToChatGLMRole_world_independent:
  "fst (messageToChatGLMRole m w) = fst (messageToChatGLMRole m w')"
  by (simp add: messageToChatGLMRole_def extractGenericMessageCustomRole_def Let_def)

lemma messageToChatGLMRole_fetched:
  "fetched (snd (messageToChatGLMRole m w)) = fetched w"
  by (simp add: messageToChatGLMRole_def extractGenericMessageCustomRole_def console_warn_def Let_def)

lemma messageToChatGLMRole_console_prefix:
  "\<exists>ls. console (snd (messageToChatGLMRole m w)) = console w @ ls"
  by (simp add: messageToChatGLMRole_def extractGenericMessageCustomRole_def console_warn_def Let_def)

lemma messageToChatGLMRole_Inr:
  assumes "messageToChatGLMRole m w = (Inr r, w')"
  shows "r = ''assistant'' \<or> r = ''user'' \<or>
         (getType m = ''generic'' \<and> ChatMessage_isInstance m \<and> message_role m = r
          \<and> (''Unknown message role: '' @ r) \<in> set (console w'))"
  using assms
  by (auto simp add: messageToChatGLMRole_def extractGenericMessageCustomRole_def
        console_warn_def Let_def split: if_splits)

text \<open>The same for the whole list, by induction along the loop.\<close>

lemma messagesMapped_fetched:
  "fetched (snd (messagesMapped msgs w)) = fetched w"
proof (induction msgs arbitrary: w)
  case Nil
  show ?case by simp
next
  case (Cons m msgs)
  obtain res w1 where step: "messageToChatGLMRole m w = (res, w1)"
    by (cases "messageToChatGLMRole m w")
  have w1: "fetched w1 = fetched w"
    using messageToChatGLMRole_fetched [of m w] step by simp
  show ?case
  proof (cases res)
    case (Inl e)
    with step w1 show ?thesis by simp
  next
    case (Inr r)
    obtain res2 w2 where rest: "messagesMapped msgs w1 = (res2, w2)"
      by (cases "messagesMapped msgs w1")
    have "fetched w2 = fetched w1"
      using Cons.IH [of w1] rest by simp
    with step Inr rest w1 show ?thesis
      by (cases res2) simp_all
  qed
qed

lemma messagesMapped_console_prefix:
  "\<exists>ls. console (snd (messagesMapped msgs w)) = console w @ ls"
proof (induction msgs arbitrary: w)
  case Nil
  show ?case by simp
next
  case (Cons m msgs)
  obtain res w1 where step: "messageToChatGLMRole m w = (res, w1)"
    by (cases "messageToChatGLMRole m w")
  obtain l1 where w1: "console w1 = console w @ l1"
    using messageToChatGLMRole_console_prefix [of m w] step by auto
  show ?case
  proof (cases res)
    case (Inl e)
    with step w1 show ?thesis by simp
  next
    case (Inr r)
    obtain res2 w2 where rest: "messagesMapped msgs w1 = (res2, w2)"
      by (cases "messagesMapped msgs w1")
    obtain l2 where "console w2 = console w1 @ l2"
      using Cons.IH [of w1] rest by auto
    with step Inr rest w1 show ?thesis
      by (cases res2) simp_all
  qed
qed

lemma messagesMapped_Cons_Inr:
  assumes "messagesMapped (m # msgs) w = (Inr P, w')"
  obtains r w1 P' where "messageToChatGLMRole m w = (Inr r, w1)"
    and "messagesMapped msgs w1 = (Inr P', w')"
    and "P = \<lparr>role = r, content = message_content m\<rparr> # P'"
  using assms
  by (auto split: prod.splits sum.splits)

lemma messagesMapped_shape:
  assumes "messagesMapped msgs w = (Inr P, w')"
  shows "list_all2 (\<lambda>m p. fst (messageToChatGLMRole m w0) = Inr (role p)
                          \<and> content p = message_content m) msgs P"
  using assms
proof (induction msgs arbitrary: w P)
  case Nil
  then show ?case by simp
next
  case (Cons m msgs)
  from Cons.prems obtain r w1 P' where
    step: "messageToChatGLMRole m w = (Inr r, w1)" and
    rest: "messagesMapped msgs w1 = (Inr P', w')" and
    P: "P = \<lparr>role = r, content = message_content m\<rparr> # P'"
    by (rule messagesMapped_Cons_Inr)
  have "fst (messageToChatGLMRole m w0) = Inr r"
    using step messageToChatGLMRole_world_independent [of m w0 w] by simp
  with Cons.IH [OF rest] P show ?case by simp
qed

lemma messagesMapped_total:
  assumes "\<forall>m\<in>set msgs. \<exists>r. fst (messageToChatGLMRole m w0) = Inr r"
  shows "\<exists>P w'. messagesMapped msgs w = (Inr P, w')"
  using assms
proof (induction msgs arbitrary: w)
  case Nil
  show ?case by simp
next
  case (Cons m msgs)
  from Cons.prems obtain r where "fst (messageToChatGLMRole m w0) = Inr r" by auto
  then have "fst (messageToChatGLMRole m w) = Inr r"
    using messageToChatGLMRole_world_independent [of m w w0] by simp
  then obtain w1 where step: "messageToChatGLMRole m w = (Inr r, w1)"
    by (cases "messageToChatGLMRole m w") simp
  from Cons.prems have "\<forall>m\<in>set msgs. \<exists>r. fst (messageToChatGLMRole m w0) = Inr r" by simp
  from Cons.IH [OF this, of w1] obtain P w' where "messagesMapped msgs w1 = (Inr P, w')" by blast
  with step show ?case by simp
qed

lemma messagesMapped_roles:
  assumes "messagesMapped msgs w = (Inr P, w')" and "p \<in> set P"
  shows "role p = ''assistant'' \<or> role p = ''user'' \<or>
         (\<exists>m\<in>set msgs. getType m = ''generic'' \<and> ChatMessage_isInstance m
            \<and> message_role m = role p
            \<and> (''Unknown message role: '' @ role p) \<in> set (console w'))"
  using assms
proof (induction msgs arbitrary: w P)
  case Nil
  then show ?case by simp
next
  case (Cons m msgs)
  from Cons.prems(1) obtain r w1 P' where
    step: "messageToChatGLMRole m w = (Inr r, w1)" and
    rest: "messagesMapped msgs w1 = (Inr P', w')" and
    P: "P = \<lparr>role = r, content = message_content m\<rparr> # P'"
    by (rule messagesMapped_Cons_Inr)
  from Cons.prems(2) P consider "role p = r" | "p \<in> set P'" by auto
  then show ?case
  proof cases
    case 1
    obtain ls where "console w' = console w1 @ ls"
      using messagesMapped_console_prefix [of msgs w1] rest by auto
    with messageToChatGLMRole_Inr [OF step] 1 show ?thesis by auto
  next
    case 2
    from Cons.IH [OF rest 2] show ?thesis by auto
  qed
qed

text \<open>What \<open>completion\<close> and \<open>generate\<close> leave in the world.\<close>

lemma completion_signed:
  assumes "getJWTToken this rt = Inr token"
  shows "snd (completion this rt request stream sig w) =
           w\<lparr>fetched := fetched w @ [completion_request token request stream sig]\<rparr>"
  using assms
  by (simp add: completion_def Let_def split: sum.splits option.splits)

lemma completion_unsigned:
  assumes "getJWTToken this rt = Inl e"
  shows "completion this rt request stream sig w = (Inl e, w)"
  using assms by (simp add: completion_def)

lemma generate_untranslated:
  assumes "messagesMapped msgs w = (Inl e, w1)"
  shows "generate this rt msgs opts w = (Inl e, w1)"
  using assms by (simp add: generate_def)

lemma generate_unsigned:
  assumes "messagesMapped msgs w = (Inr P, w1)" and "getJWTToken this rt = Inl e"
  shows "generate this rt msgs opts w = (Inl e, w1)"
  using assms by (simp add: generate_def completion_unsigned)

lemma generate_world:
  assumes "messagesMapped msgs w = (Inr P, w1)" and "getJWTToken this rt = Inr token"
  shows "snd (generate this rt msgs opts w) =
           w1\<lparr>fetched := fetched w @
                  [completion_request token \<lparr>prompt = P\<rparr> False (options_signal opts)]\<rparr>"
proof -
  have f: "fetched w1 = fetched w"
    using messagesMapped_fetched [of msgs w] assms(1) by simp
  obtain res w2 where c: "completion this rt \<lparr>prompt = P\<rparr> False (options_signal opts) w1 = (res, w2)"
    by (cases "completion this rt \<lparr>prompt = P\<rparr> False (options_signal opts) w1")
  have w2: "w2 = w1\<lparr>fetched := fetched w1 @
                  [completion_request token \<lparr>prompt = P\<rparr> False (options_signal opts)]\<rparr>"
    using completion_signed [OF assms(2), of "\<lparr>prompt = P\<rparr>" False "options_signal opts" w1] c
    by simp
  have "snd (generate this rt msgs opts w) = w2"
    using assms(1) c
    by (simp add: generate_def Let_def split: sum.splits)
  with w2 f show ?thesis by simp
qed

lemma generate_sent:
  assumes "fetched (snd (generate this rt msgs opts w)) = fetched w @ qs" and "q \<in> set qs"
  obtains P w1 token where "messagesMapped msgs w = (Inr P, w1)"
    and "getJWTToken this rt = Inr token"
    and "q = completion_request token \<lparr>prompt = P\<rparr> False (options_signal opts)"
    and "console (snd (generate this rt msgs opts w)) = console w1"
proof -
  obtain res w1 where m: "messagesMapped msgs w = (res, w1)"
    by (cases "messagesMapped msgs w")
  have f: "fetched w1 = fetched w"
    using messagesMapped_fetched [of msgs w] m by simp
  show thesis
  proof (cases res)
    case (Inl e)
    with m have "generate this rt msgs opts w = (Inl e, w1)"
      by (simp add: generate_untranslated)
    with assms f show ?thesis by simp
  next
    case (Inr P)
    note P = this
    show ?thesis
    proof (cases "getJWTToken this rt")
      case (Inl e)
      with m P have "generate this rt msgs opts w = (Inl e, w1)"
        by (simp add: generate_unsigned)
      with assms f show ?thesis by simp
    next
      case (Inr token)
      from m P have m': "messagesMapped msgs w = (Inr P, w1)" by simp
      note gw = generate_world [OF m' Inr, where opts = opts]
      from gw assms(1) have "qs = [completion_request token \<lparr>prompt = P\<rparr> False (options_signal opts)]"
        by simp
      with assms(2) have "q = completion_request token \<lparr>prompt = P\<rparr> False (options_signal opts)"
        by simp
      moreover from gw have "console (snd (generate this rt msgs opts w)) = console w1"
        by simp
      ultimately show ?thesis using that m' Inr by blast
    qed
  qed
qed

lemma getJWTToken_example: "getJWTToken example_ChatGLM (example_runtime r) = Inr ''signed''"
  by (simp add: getJWTToken_def example_runtime_def)

lemma exp_claim:
  "exp (jwt_claims (getJWTToken_jwt this rt)) =
     Math_round_div_1000 (Date_now_exp rt) + expSeconds this * 1000"
  by (simp add: getJWTToken_jwt_def getJWTToken_payload_def setExpirationTime_def Let_def)

lemma example_messagesMapped:
  "messagesMapped [example_message ''human'' ''Hello''] example_world
     = (Inr [\<lparr>role = ''user'', content = ''Hello''\<rparr>], example_world)"
  by (simp add: messageToChatGLMRole_def example_message_def)

text \<open>The outcome of \<open>generate\<close> once the response is parsed: the text read from it
  goes to the message constructor unguarded, and the constructor decides between a
  result with one generation and a rejection.\<close>

lemma generate_parsed:
  assumes "messagesMapped msgs w = (Inr P, w1)"
    and "getJWTToken this rt = Inr token"
    and "fetch rt (completion_request token \<lparr>prompt = P\<rparr> False (options_signal opts)) = Inr response"
    and "response_json response = Inr parsed"
  shows "fst (generate this rt msgs opts w) =
           (case new_AIMessage rt (first_choice_content (data parsed)) of
              Inl e \<Rightarrow> Inl e
            | Inr message \<Rightarrow>
                Inr \<lparr>generations =
                       [\<lparr>generation_text = first_choice_content (data parsed),
                         generation_message = message\<rparr>],
                     llmOutput = \<lparr>tokenUsage = Option.bind (data parsed) usage\<rparr>\<rparr>)"
proof -
  have c: "fst (completion this rt \<lparr>prompt = P\<rparr> False (options_signal opts) w1)
             = Inr (Response parsed)"
    using assms(2,3,4) by (simp add: completion_def Let_def)
  show ?thesis
    using assms(1) c
    by (cases "completion this rt \<lparr>prompt = P\<rparr> False (options_signal opts) w1")
       (simp add: generate_def result_data_def Let_def split: sum.splits)
qed

text \<open>With a first choice, and a constructor that returns on its content, the result has
  exactly one generation, whose text is that content.\<close>

lemma generate_first_choice:
  assumes "messagesMapped msgs w = (Inr P, w1)"
    and "getJWTToken this rt = Inr token"
    and "fetch rt (completion_request token \<lparr>prompt = P\<rparr> False (options_signal opts)) = Inr response"
    and "response_json response = Inr parsed"
    and "data parsed = Some d" and "choices d = c # cs"
    and "new_AIMessage rt (Some (content c)) = Inr message"
  shows "\<exists>out. fst (generate this rt msgs opts w) = Inr out
           \<and> generations out =
               [\<lparr>generation_text = Some (content c), generation_message = message\<rparr>]"
  using generate_parsed [OF assms(1-4)] assms(5-7)
  by (simp add: first_choice_content_def)

lemma generate_first_choice_example:
  "\<exists>out. fst (generate example_ChatGLM
             (example_runtime (example_response (Some (example_data
                [\<lparr>role = ''assistant'', content = ''Hi!''\<rparr>,
                 \<lparr>role = ''assistant'', content = ''Hey''\<rparr>]))))
             [example_message ''human'' ''Hello''] \<lparr>options_signal = None\<rparr> example_world)
           = Inr out
     \<and> generations out = [\<lparr>generation_text = Some ''Hi!'', generation_message = ''Hi!''\<rparr>]"
proof -
  let ?cs = "[\<lparr>role = ''assistant'', content = ''Hi!''\<rparr>, \<lparr>role = ''assistant'', content = ''Hey''\<rparr>]"
  have f: "fetch (example_runtime r) q = Inr r" for r q
    by (simp add: example_runtime_def)
  have j: "response_json (example_response d)
             = Inr \<lparr>code = 200, success = True, msg = ''ok'', data = d\<rparr>" for d
    by (simp add: example_response_def)
  have d: "data \<lparr>code = 200, success = True, msg = ''ok'', data = Some (example_data ?cs)\<rparr>
             = Some (example_data ?cs)"
    by simp
  have c: "choices (example_data ?cs)
             = \<lparr>role = ''assistant'', content = ''Hi!''\<rparr> # [\<lparr>role = ''assistant'', content = ''Hey''\<rparr>]"
    by (simp add: example_data_def)
  have ctor: "new_AIMessage (example_runtime r) (Some (content \<lparr>role = ''assistant'', content = ''Hi!''\<rparr>))
                = Inr ''Hi!''" for r
    by (simp add: example_runtime_def)
  from generate_first_choice [OF example_messagesMapped getJWTToken_example f j d c ctor,
         where opts = "\<lparr>options_signal = None\<rparr>"]
  show ?thesis by simp
qed

section \<open>The claims\<close>

subsection \<open>C1: the expiry claim of the token\<close>

text \<open>
  C1 says that the \<^verbatim>\<open>exp\<close> claim of the payload is the issuance time in Unix seconds
  plus \<^verbatim>\<open>expSeconds\<close>. The method computes the issuance time in seconds and then adds
  \<^verbatim>\<open>expSeconds * 1000\<close>, so the window is a thousand times the configured one
  (\<open>exp_claim\<close> above, for every instance). Evaluated at the default window of 3600
  and a clock reading of 1700000000000 ms: the signer receives \<^verbatim>\<open>exp\<close> = 1703600000,
  which is the issuance second 1700000000 plus 3600000, not plus 3600.
\<close>

theorem getJWTToken_exp_at_default_window:
  "getJWTToken \<lparr>chatGLMApiKey = ''id.secret'', expSeconds = 3600\<rparr>
     \<lparr>Date_now_exp = 1700000000000, Date_now_timestamp = 1700000000000,
      jwt_sign = sg, fetch = f, new_AIMessage = mk\<rparr>
   = sg \<lparr>jwt_claims = \<lparr>api_key = ''id'', exp = 1703600000, timestamp = 1700000000\<rparr>,
         protectedHeader = Some \<lparr>alg = ''HS256'', sign_type = ''SIGN''\<rparr>\<rparr> ''secret''
   \<and> (1703600000 :: int) = 1700000000 + 3600 * 1000
   \<and> (1703600000 :: int) \<noteq> 1700000000 + 3600"
  by (simp add: token_defs Let_def)

subsection \<open>C2: the role of a message\<close>

text \<open>
  C2 as stated (every message whose type is neither "ai" nor "human" makes
  \<^verbatim>\<open>messageToChatGLMRole\<close> throw) fails: a "generic" message that is a
  \<^verbatim>\<open>ChatMessage\<close> is translated to its own role.
\<close>

theorem messageToChatGLMRole_generic_not_thrown:
  "fst (messageToChatGLMRole (example_ChatMessage ''user'' ''Hello'') example_world) = Inr ''user''
   \<and> getType (example_ChatMessage ''user'' ''Hello'') \<noteq> ''ai''
   \<and> getType (example_ChatMessage ''user'' ''Hello'') \<noteq> ''human''"
  by (simp add: messageToChatGLMRole_def extractGenericMessageCustomRole_def
        example_ChatMessage_def Let_def)

text \<open>
  C2, amended: \<^verbatim>\<open>messageToChatGLMRole\<close> maps "ai" to "assistant" and "human" to "user",
  maps a "generic" message that is a \<^verbatim>\<open>ChatMessage\<close> instance to that message's own
  role, and throws for every other message, leaving the world as it was.
\<close>

theorem messageToChatGLMRole_cases:
  "(getType m = ''ai'' \<longrightarrow> fst (messageToChatGLMRole m w) = Inr ''assistant'')
   \<and> (getType m = ''human'' \<longrightarrow> fst (messageToChatGLMRole m w) = Inr ''user'')
   \<and> (getType m = ''generic'' \<and> ChatMessage_isInstance m \<longrightarrow>
        fst (messageToChatGLMRole m w) = Inr (message_role m))
   \<and> (getType m \<noteq> ''ai'' \<and> getType m \<noteq> ''human''
        \<and> \<not> (getType m = ''generic'' \<and> ChatMessage_isInstance m) \<longrightarrow>
        (\<exists>e. messageToChatGLMRole m w = (Inl e, w)))"
  by (simp add: messageToChatGLMRole_def extractGenericMessageCustomRole_def Let_def)

theorem messageToChatGLMRole_cases_witness:
  "fst (messageToChatGLMRole (example_message ''ai'' ''Hi'') example_world) = Inr ''assistant''
   \<and> fst (messageToChatGLMRole (example_message ''human'' ''Hi'') example_world) = Inr ''user''
   \<and> fst (messageToChatGLMRole (example_ChatMessage ''critic'' ''Hi'') example_world) = Inr ''critic''
   \<and> (\<exists>e. messageToChatGLMRole (example_message ''tool'' ''Hi'') example_world = (Inl e, example_world))"
  using messageToChatGLMRole_cases [of "example_message ''ai'' ''Hi''" example_world]
        messageToChatGLMRole_cases [of "example_message ''human'' ''Hi''" example_world]
        messageToChatGLMRole_cases [of "example_ChatMessage ''critic'' ''Hi''" example_world]
        messageToChatGLMRole_cases [of "example_message ''tool'' ''Hi''" example_world]
  by (simp add: example_message_def example_ChatMessage_def)

subsection \<open>C3: the roles in the request\<close>

text \<open>
  C3 as stated (every role in the request prompt is "assistant" or "user") fails: the
  custom role of a generic \<^verbatim>\<open>ChatMessage\<close> goes into the prompt as it is. Here
  \<^verbatim>\<open>_generate\<close> sends a prompt whose only entry has the role "system".
\<close>

theorem generate_sends_custom_role:
  "fetched (snd (generate example_ChatGLM (example_runtime (example_response None))
       [example_ChatMessage ''system'' ''Be terse''] \<lparr>options_signal = None\<rparr> example_world))
     = [\<lparr>url = ''https://open.bigmodel.cn/api/paas/v3/model-api/chatglm_turbo/invoke'',
         http_method = ''POST'',
         headers = [(''Authorization'', ''signed''), (''accept'', ''application/json''),
                    (''Content-Type'', ''application/json'')],
         body = JSON_stringify \<lparr>prompt = [\<lparr>role = ''system'', content = ''Be terse''\<rparr>]\<rparr>,
         signal = None\<rparr>]
   \<and> ''system'' \<noteq> ''assistant'' \<and> ''system'' \<noteq> ''user''"
  by (simp add: generate_def completion_def completion_request_def messageToChatGLMRole_def
        extractGenericMessageCustomRole_def console_warn_def getJWTToken_def result_data_def
        first_choice_content_def Let_def example_defs)

text \<open>
  C3, amended: every message in the prompt of a request that \<^verbatim>\<open>_generate\<close> sends has the
  role "assistant" or "user", or the custom role of a generic \<^verbatim>\<open>ChatMessage\<close> of the
  input, and then the warning "Unknown message role: " followed by that role is on the
  console.
\<close>

theorem generate_prompt_roles:
  assumes "fetched (snd (generate this rt msgs opts w)) = fetched w @ qs"
    and "q \<in> set qs"
    and "body q = JSON_stringify request"
    and "p \<in> set (prompt request)"
  shows "role p = ''assistant'' \<or> role p = ''user'' \<or>
         (\<exists>m\<in>set msgs. getType m = ''generic'' \<and> ChatMessage_isInstance m
            \<and> message_role m = role p
            \<and> (''Unknown message role: '' @ role p)
                 \<in> set (console (snd (generate this rt msgs opts w))))"
proof -
  from assms(1,2) obtain P w1 token where
    m: "messagesMapped msgs w = (Inr P, w1)" and
    q: "q = completion_request token \<lparr>prompt = P\<rparr> False (options_signal opts)" and
    c: "console (snd (generate this rt msgs opts w)) = console w1"
    by (rule generate_sent)
  from q assms(3) have "request = \<lparr>prompt = P\<rparr>"
    by (simp add: completion_request_def)
  with assms(4) have "p \<in> set P" by simp
  from messagesMapped_roles [OF m this] c show ?thesis by simp
qed

theorem generate_prompt_roles_witness:
  "fetched (snd (generate example_ChatGLM (example_runtime (example_response None))
       [example_message ''human'' ''Hello'', example_ChatMessage ''critic'' ''Hm'']
       \<lparr>options_signal = None\<rparr> example_world))
     = fetched example_world @
       [completion_request ''signed''
          \<lparr>prompt = [\<lparr>role = ''user'', content = ''Hello''\<rparr>, \<lparr>role = ''critic'', content = ''Hm''\<rparr>]\<rparr>
          False None]
   \<and> ''Unknown message role: critic''
       \<in> set (console (snd (generate example_ChatGLM (example_runtime (example_response None))
             [example_message ''human'' ''Hello'', example_ChatMessage ''critic'' ''Hm'']
             \<lparr>options_signal = None\<rparr> example_world)))"
proof -
  let ?msgs = "[example_message ''human'' ''Hello'', example_ChatMessage ''critic'' ''Hm'']"
  let ?req = "\<lparr>prompt = [\<lparr>role = ''user'', content = ''Hello''\<rparr>, \<lparr>role = ''critic'', content = ''Hm''\<rparr>]\<rparr>"
  let ?q = "completion_request ''signed'' ?req False None"
  let ?g = "generate example_ChatGLM (example_runtime (example_response None)) ?msgs
              \<lparr>options_signal = None\<rparr> example_world"
  have sent: "fetched (snd ?g) = fetched example_world @ [?q]"
    by (simp add: generate_def completion_def messageToChatGLMRole_def
        extractGenericMessageCustomRole_def console_warn_def getJWTToken_def result_data_def
        first_choice_content_def Let_def example_defs)
  have q: "?q \<in> set [?q]" by simp
  have b: "body ?q = JSON_stringify ?req" by (simp add: completion_request_def)
  have p: "\<lparr>role = ''critic'', content = ''Hm''\<rparr> \<in> set (prompt ?req)" by simp
  from generate_prompt_roles [OF sent q b p] sent show ?thesis by auto
qed

subsection \<open>C4: the API key at construction\<close>

text \<open>
  C4 as stated (the constructor throws exactly when neither the field nor the environment
  variable is set) fails: with the field set to the empty string and the environment
  variable set to a key, the constructor throws.
\<close>

theorem constructor_empty_field_hides_env:
  "ChatGLM_constructor (Some \<lparr>fields_chatGLMApiKey = Some '''', fields_expSeconds = None\<rparr>)
     (Some ''id.secret'') = Inl (Error ''ChatGLM API key not found'')
   \<and> fields_chatGLMApiKey \<lparr>fields_chatGLMApiKey = Some '''', fields_expSeconds = None\<rparr> \<noteq> None
   \<and> Some ''id.secret'' \<noteq> (None :: string option)"
  by (simp add: ChatGLM_constructor_def nullish_or_def)

text \<open>
  C4, amended: the constructor selects the \<^verbatim>\<open>chatGLMApiKey\<close> field when it is given and
  the environment variable otherwise; it throws if and only if the selected key is missing
  or the empty string: the field is the empty string, or the field is not given and the
  variable is unset or empty. Otherwise the instance's \<^verbatim>\<open>chatGLMApiKey\<close> is the selected
  key.
\<close>

theorem constructor_throws_iff:
  "(let field = Option.bind input fields_chatGLMApiKey in
    (ChatGLM_constructor input env = Inl (Error ''ChatGLM API key not found'')
       \<longleftrightarrow> field = Some [] \<or> (field = None \<and> (env = None \<or> env = Some [])))
    \<and> (\<forall>k. k \<noteq> [] \<and> (field = Some k \<or> (field = None \<and> env = Some k)) \<longrightarrow>
          (\<exists>c. ChatGLM_constructor input env = Inr c \<and> chatGLMApiKey c = k)))"
  by (auto simp add: ChatGLM_constructor_def nullish_or_def Let_def split: option.splits)

theorem constructor_throws_iff_witness:
  "ChatGLM_constructor None None = Inl (Error ''ChatGLM API key not found'')
   \<and> (\<exists>c. ChatGLM_constructor None (Some ''id.secret'') = Inr c \<and> chatGLMApiKey c = ''id.secret'')
   \<and> (\<exists>c. ChatGLM_constructor (Some \<lparr>fields_chatGLMApiKey = Some ''a.b'', fields_expSeconds = None\<rparr>)
             (Some ''id.secret'') = Inr c \<and> chatGLMApiKey c = ''a.b'')"
  using constructor_throws_iff [of None None]
        constructor_throws_iff [of None "Some ''id.secret''"]
        constructor_throws_iff
          [of "Some \<lparr>fields_chatGLMApiKey = Some ''a.b'', fields_expSeconds = None\<rparr>"
              "Some ''id.secret''"]
  by (simp add: Let_def)

subsection \<open>C5: system and function messages\<close>

text \<open>
  C5: for every message of type "system" and every message of type "function",
  \<^verbatim>\<open>messageToChatGLMRole\<close> throws; it returns no role and leaves the world as it was.
\<close>

theorem messageToChatGLMRole_system_function_throw:
  "getType m = ''system'' \<or> getType m = ''function'' \<Longrightarrow>
   \<exists>e. messageToChatGLMRole m w = (Inl e, w)"
  by (auto simp add: messageToChatGLMRole_def Let_def)

theorem messageToChatGLMRole_system_function_throw_witness:
  "(\<exists>e. messageToChatGLMRole (example_message ''system'' ''Be terse'') example_world
          = (Inl e, example_world))
   \<and> (\<exists>e. messageToChatGLMRole (example_message ''function'' ''42'') example_world
          = (Inl e, example_world))"
  using messageToChatGLMRole_system_function_throw
          [of "example_message ''system'' ''Be terse''" example_world]
        messageToChatGLMRole_system_function_throw
          [of "example_message ''function'' ''42''" example_world]
  by (simp add: example_message_def)

subsection \<open>C6: an unrecognised custom role\<close>

text \<open>
  C6: for every generic \<^verbatim>\<open>ChatMessage\<close> whose role is neither "assistant" nor "user", role
  extraction writes one warning to the console, does not throw, and returns the message's
  role unchanged; so does \<^verbatim>\<open>messageToChatGLMRole\<close> on such a message.
\<close>

theorem extractGenericMessageCustomRole_unknown_role:
  assumes "message_role m \<noteq> ''assistant''" and "message_role m \<noteq> ''user''"
  shows "extractGenericMessageCustomRole m w =
           (message_role m, w\<lparr>console := console w @ [''Unknown message role: '' @ message_role m]\<rparr>)
         \<and> (getType m = ''generic'' \<and> ChatMessage_isInstance m \<longrightarrow>
              messageToChatGLMRole m w =
                (Inr (message_role m),
                 w\<lparr>console := console w @ [''Unknown message role: '' @ message_role m]\<rparr>))"
  using assms
  by (simp add: messageToChatGLMRole_def extractGenericMessageCustomRole_def console_warn_def Let_def)

theorem extractGenericMessageCustomRole_unknown_role_witness:
  "extractGenericMessageCustomRole (example_ChatMessage ''critic'' ''Hm'') example_world =
     (''critic'', \<lparr>console = [''Unknown message role: critic''], fetched = []\<rparr>)
   \<and> messageToChatGLMRole (example_ChatMessage ''critic'' ''Hm'') example_world =
     (Inr ''critic'', \<lparr>console = [''Unknown message role: critic''], fetched = []\<rparr>)"
proof -
  have a: "message_role (example_ChatMessage ''critic'' ''Hm'') \<noteq> ''assistant''"
    and u: "message_role (example_ChatMessage ''critic'' ''Hm'') \<noteq> ''user''"
    by (simp_all add: example_ChatMessage_def)
  from extractGenericMessageCustomRole_unknown_role [OF a u, of example_world] show ?thesis
    by (simp add: example_ChatMessage_def example_world_def)
qed

subsection \<open>C7: the request body\<close>

text \<open>
  C7: \<^verbatim>\<open>_generate\<close> sends one request whose body is the serialised object
  \<^verbatim>\<open>{ prompt: [...] }\<close>; the prompt has the length and the order of the input messages,
  and its entry at each position carries the translated role and the unchanged content of
  the message at that position. This is for every list whose messages all have a
  translated role (another message makes \<^verbatim>\<open>_generate\<close> throw before any request, see
  \<open>generate_untranslated\<close>) and a signer that returns a token.
\<close>

theorem generate_request_prompt:
  assumes "\<forall>m\<in>set msgs. \<exists>r. fst (messageToChatGLMRole m w) = Inr r"
    and "getJWTToken this rt = Inr token"
  shows "\<exists>q P. fetched (snd (generate this rt msgs opts w)) = fetched w @ [q]
           \<and> body q = JSON_stringify \<lparr>prompt = P\<rparr>
           \<and> length P = length msgs
           \<and> (\<forall>i<length msgs.
                 fst (messageToChatGLMRole (msgs ! i) w) = Inr (role (P ! i))
                 \<and> content (P ! i) = message_content (msgs ! i))"
proof -
  from messagesMapped_total [OF assms(1), of w] obtain P w1 where
    m: "messagesMapped msgs w = (Inr P, w1)" by blast
  let ?q = "completion_request token \<lparr>prompt = P\<rparr> False (options_signal opts)"
  have sent: "fetched (snd (generate this rt msgs opts w)) = fetched w @ [?q]"
    using generate_world [OF m assms(2), where opts = opts] by simp
  have b: "body ?q = JSON_stringify \<lparr>prompt = P\<rparr>"
    by (simp add: completion_request_def)
  have shape: "list_all2 (\<lambda>m p. fst (messageToChatGLMRole m w) = Inr (role p)
                          \<and> content p = message_content m) msgs P"
    by (rule messagesMapped_shape [OF m])
  then have len: "length P = length msgs"
    by (simp add: list_all2_lengthD)
  have "\<forall>i<length msgs. fst (messageToChatGLMRole (msgs ! i) w) = Inr (role (P ! i))
          \<and> content (P ! i) = message_content (msgs ! i)"
    using shape by (simp add: list_all2_conv_all_nth)
  with sent b len show ?thesis by blast
qed

theorem generate_request_prompt_witness:
  "\<exists>q P. fetched (snd (generate example_ChatGLM (example_runtime (example_response None))
              [example_message ''human'' ''Hello'', example_message ''ai'' ''Hi!'']
              \<lparr>options_signal = None\<rparr> example_world)) = [q]
     \<and> body q = JSON_stringify \<lparr>prompt = P\<rparr>
     \<and> length P = 2
     \<and> role (P ! 0) = ''user'' \<and> content (P ! 0) = ''Hello''
     \<and> role (P ! 1) = ''assistant'' \<and> content (P ! 1) = ''Hi!''"
proof -
  let ?msgs = "[example_message ''human'' ''Hello'', example_message ''ai'' ''Hi!'']"
  let ?rt = "example_runtime (example_response None) :: string runtime"
  let ?g = "generate example_ChatGLM ?rt ?msgs \<lparr>options_signal = None\<rparr> example_world"
  have ok: "\<forall>m\<in>set ?msgs. \<exists>r. fst (messageToChatGLMRole m example_world) = Inr r"
    by (simp add: messageToChatGLMRole_def example_message_def)
  from generate_request_prompt [OF ok getJWTToken_example, where opts = "\<lparr>options_signal = None\<rparr>"]
  obtain q P where
    sent: "fetched (snd ?g) = fetched example_world @ [q]" and
    b: "body q = JSON_stringify \<lparr>prompt = P\<rparr>" and
    len: "length P = length ?msgs" and
    each: "\<forall>i<length ?msgs.
             fst (messageToChatGLMRole (?msgs ! i) example_world) = Inr (role (P ! i))
             \<and> content (P ! i) = message_content (?msgs ! i)"
    by blast
  from each [rule_format, of 0]
  have e0: "role (P ! 0) = ''user'' \<and> content (P ! 0) = ''Hello''"
    by (simp add: messageToChatGLMRole_def example_message_def)
  from each [rule_format, of 1]
  have e1: "role (P ! 1) = ''assistant'' \<and> content (P ! 1) = ''Hi!''"
    by (simp add: messageToChatGLMRole_def example_message_def)
  from sent have "fetched (snd ?g) = [q]"
    by (simp add: example_world_def)
  with b len e0 e1 show ?thesis by auto
qed

subsection \<open>C8: the headers of the request\<close>

text \<open>
  C8: every call of \<^verbatim>\<open>completion\<close> whose token is signed sends one request; its
  \<^verbatim>\<open>accept\<close> header is "text/event-stream" when the stream flag is true and
  "application/json" when it is false, and its \<^verbatim>\<open>Authorization\<close> header is the signed
  token that \<^verbatim>\<open>_getJWTToken\<close> returned.
\<close>

theorem completion_headers:
  assumes "getJWTToken this rt = Inr token"
  shows "\<exists>q. fetched (snd (completion this rt request stream sig w)) = fetched w @ [q]
           \<and> map_of (headers q) ''accept''
               = Some (if stream then ''text/event-stream'' else ''application/json'')
           \<and> map_of (headers q) ''Authorization'' = Some token"
  using completion_signed [OF assms, of request stream sig w]
  by (simp add: completion_request_def)

theorem completion_headers_witness:
  "(\<exists>q. fetched (snd (completion example_ChatGLM
              (example_runtime (example_response None) :: string runtime)
              \<lparr>prompt = []\<rparr> True None example_world)) = [q]
        \<and> map_of (headers q) ''accept'' = Some ''text/event-stream''
        \<and> map_of (headers q) ''Authorization'' = Some ''signed'')
   \<and> (\<exists>q. fetched (snd (completion example_ChatGLM
              (example_runtime (example_response None) :: string runtime)
              \<lparr>prompt = []\<rparr> False None example_world)) = [q]
        \<and> map_of (headers q) ''accept'' = Some ''application/json''
        \<and> map_of (headers q) ''Authorization'' = Some ''signed'')"
  using completion_headers [OF getJWTToken_example [of "example_response None"],
          of "\<lparr>prompt = []\<rparr>" True None example_world]
        completion_headers [OF getJWTToken_example [of "example_response None"],
          of "\<lparr>prompt = []\<rparr>" False None example_world]
  by (simp add: example_world_def)

subsection \<open>C9: a streaming call without a body\<close>

text \<open>
  C9: when \<^verbatim>\<open>completion\<close> is called with the stream flag true and the response has no
  body, it resolves to \<^verbatim>\<open>undefined\<close>, although the overload for a true flag declares
  a stream as the result.
\<close>

theorem completion_stream_no_body_undefined:
  assumes "getJWTToken this rt = Inr token"
    and "fetch rt (completion_request token request True sig) = Inr response"
    and "response_body response = None"
  shows "fst (completion this rt request True sig w) = Inr Undefined"
  using assms by (simp add: completion_def Let_def)

theorem completion_stream_no_body_undefined_witness:
  "fst (completion example_ChatGLM (example_runtime (example_response None) :: string runtime)
          \<lparr>prompt = []\<rparr> True None example_world) = Inr Undefined"
proof -
  let ?rt = "example_runtime (example_response None) :: string runtime"
  have resp: "fetch ?rt (completion_request ''signed'' \<lparr>prompt = []\<rparr> True None)
                = Inr (example_response None)"
    by (simp add: example_runtime_def)
  have nobody: "response_body (example_response None) = None"
    by (simp add: example_response_def)
  from completion_stream_no_body_undefined [OF getJWTToken_example resp nobody]
  show ?thesis .
qed

subsection \<open>C10: the result of a generation\<close>

text \<open>
  C10 says that for every response \<^verbatim>\<open>_generate\<close> returns a result with exactly one
  generation whose text is the content of the first choice, and that with no data or with
  no choice the text is undefined and an AI message is still constructed from it. The
  method reads the text and the token usage with \<^verbatim>\<open>?.\<close>, so it means to go on when the
  data or the first choice is absent, and then passes the undefined text to
  \<^verbatim>\<open>new AIMessage\<close> without a guard: with no data or with no choice, the outcome of
  \<^verbatim>\<open>_generate\<close> is the outcome of the constructor on \<^verbatim>\<open>undefined\<close>. A constructor that
  throws there, as the framework's does, makes \<^verbatim>\<open>_generate\<close> reject with that error
  instead of returning a result. (With a first choice the claim holds, see
  \<open>generate_first_choice\<close>.)
\<close>

theorem generate_undefined_text:
  assumes "messagesMapped msgs w = (Inr P, w1)"
    and "getJWTToken this rt = Inr token"
    and "fetch rt (completion_request token \<lparr>prompt = P\<rparr> False (options_signal opts)) = Inr response"
    and "response_json response = Inr parsed"
    and "data parsed = None \<or> (\<exists>d. data parsed = Some d \<and> choices d = [])"
  shows "fst (generate this rt msgs opts w) =
           (case new_AIMessage rt None of
              Inl e \<Rightarrow> Inl e
            | Inr message \<Rightarrow>
                Inr \<lparr>generations =
                       [\<lparr>generation_text = None, generation_message = message\<rparr>],
                     llmOutput = \<lparr>tokenUsage = Option.bind (data parsed) usage\<rparr>\<rparr>)"
proof -
  from assms(5) have "first_choice_content (data parsed) = None"
    by (auto simp add: first_choice_content_def)
  with generate_parsed [OF assms(1-4)] show ?thesis by (simp split: sum.splits)
qed

theorem generate_undefined_text_witness:
  "fst (generate example_ChatGLM (example_runtime (example_response None))
          [example_message ''human'' ''Hello''] \<lparr>options_signal = None\<rparr> example_world)
     = Inl (TypeError ''Cannot read properties of undefined'')
   \<and> fst (generate example_ChatGLM (example_runtime (example_response (Some (example_data []))))
          [example_message ''human'' ''Hello''] \<lparr>options_signal = None\<rparr> example_world)
     = Inl (TypeError ''Cannot read properties of undefined'')"
proof -
  have f: "fetch (example_runtime r) q = Inr r" for r q
    by (simp add: example_runtime_def)
  have j: "response_json (example_response d)
             = Inr \<lparr>code = 200, success = True, msg = ''ok'', data = d\<rparr>" for d
    by (simp add: example_response_def)
  have ctor: "new_AIMessage (example_runtime r) None
                = Inl (TypeError ''Cannot read properties of undefined'')" for r
    by (simp add: example_runtime_def)
  have nodata: "data \<lparr>code = 200, success = True, msg = ''ok'', data = None\<rparr> = None
                \<or> (\<exists>d. data \<lparr>code = 200, success = True, msg = ''ok'', data = None\<rparr> = Some d
                        \<and> choices d = [])"
    by simp
  have nochoice: "data \<lparr>code = 200, success = True, msg = ''ok'', data = Some (example_data [])\<rparr> = None
                \<or> (\<exists>d. data \<lparr>code = 200, success = True, msg = ''ok'', data = Some (example_data [])\<rparr> = Some d
                        \<and> choices d = [])"
    by (simp add: example_data_def)
  from generate_undefined_text [OF example_messagesMapped getJWTToken_example f j nodata,
         where opts = "\<lparr>options_signal = None\<rparr>"]
       generate_undefined_text [OF example_messagesMapped getJWTToken_example f j nochoice,
         where opts = "\<lparr>options_signal = None\<rparr>"]
  show ?thesis by (simp add: ctor)
qed

end
